theory Spec2Isabelle
  imports Complex_Main
begin

section \<open>Hierarchical Risk Parity: the embedding of hrp.py\<close>

text \<open>
  The module \<^verbatim>\<open>mlfinlab/portfolio_optimization/hrp.py\<close> defines one class,
  \<^verbatim>\<open>HierarchicalRiskParity\<close>. Its methods are embedded one by one, each from the
  lines named with it. Python exceptions are values of \<open>py_error\<close>; a method that mutates the
  object returns the raised exception (if any) together with the object as it stands
  when the method is left, because an exception does not undo earlier assignments.
\<close>

subsection \<open>Exceptions\<close>

text \<open>
  \<open>InvalidInputError\<close> is the specification's name for the exception of the input
  check; the others are Python's.
\<close>

datatype py_error =
    InvalidInputError
  | NameError string
  | TypeError
  | IndexError

subsection \<open>Floating point values and numpy arrays\<close>

text \<open>
  A float64 is idealised as a real number; \<open>None\<close> stands for a non-finite value
  (\<^verbatim>\<open>nan\<close> or an infinity). numpy does not raise on a division by zero of float64
  values: it returns \<^verbatim>\<open>nan\<close> or an infinity (with a warning). Every operation the
  module applies to a possibly non-finite value (a product, \<^verbatim>\<open>1 - x\<close>) keeps it
  non-finite.
\<close>

type_synonym float64 = "real option"

definition fmul :: "float64 \<Rightarrow> float64 \<Rightarrow> float64" where
  "fmul x y = (case x of None \<Rightarrow> None | Some a \<Rightarrow> (case y of None \<Rightarrow> None | Some b \<Rightarrow> Some (a * b)))"

definition one_minus :: "float64 \<Rightarrow> float64" where
  "one_minus x = (case x of None \<Rightarrow> None | Some a \<Rightarrow> Some (1 - a))"

definition fdiv :: "float64 \<Rightarrow> float64 \<Rightarrow> float64" where
  "fdiv x y =
     (case x of None \<Rightarrow> None
      | Some a \<Rightarrow> (case y of None \<Rightarrow> None | Some b \<Rightarrow> if b = 0 then None else Some (a / b)))"

definition fadd :: "float64 \<Rightarrow> float64 \<Rightarrow> float64" where
  "fadd x y = (case x of None \<Rightarrow> None | Some a \<Rightarrow> (case y of None \<Rightarrow> None | Some b \<Rightarrow> Some (a + b)))"

text \<open>\<^verbatim>\<open>np.sum\<close> of a one-dimensional array; the sum of an empty array is 0.\<close>

definition np_sum :: "float64 list \<Rightarrow> float64" where
  "np_sum xs = foldr fadd xs (Some 0)"

text \<open>A two-dimensional array of finite floats, row by row.\<close>

type_synonym matrix = "real list list"

definition nrows :: "matrix \<Rightarrow> nat" where
  "nrows m = length m"

definition ncols :: "matrix \<Rightarrow> nat" where
  "ncols m = (case m of [] \<Rightarrow> 0 | r # _ \<Rightarrow> length r)"

text \<open>
  An n-dimensional array as nested rows along its first axis; a zero-dimensional array
  is a scalar. \<^verbatim>\<open>np.ones(shape)\<close> takes the \<^emph>\<open>shape\<close>: a list \<open>[a, b, c]\<close> gives an
  array of \<open>a\<close> rows, each of \<open>b\<close> rows of \<open>c\<close> ones, and the empty list gives the
  scalar 1.
\<close>

datatype ndarray = Scalar float64 | Arr "ndarray list"

fun np_ones :: "nat list \<Rightarrow> ndarray" where
  "np_ones [] = Scalar (Some 1)"
| "np_ones (n # shape) = Arr (replicate n (np_ones shape))"

fun scale :: "float64 \<Rightarrow> ndarray \<Rightarrow> ndarray" where
  "scale a (Scalar x) = Scalar (fmul x a)"
| "scale a (Arr rs) = Arr (map (scale a) rs)"

text \<open>
  \<^verbatim>\<open>weights[cluster] *= a\<close> with a list of indices: numpy reads the rows named by the
  list (IndexError when an index is not below the length of the first axis, or when
  the array is zero-dimensional), multiplies them and writes them back. A row named
  twice is still multiplied once.
\<close>

definition scale_row :: "nat list \<Rightarrow> float64 \<Rightarrow> nat \<times> ndarray \<Rightarrow> ndarray" where
  "scale_row cluster a ir = (if fst ir \<in> set cluster then scale a (snd ir) else snd ir)"

fun imul_rows :: "ndarray \<Rightarrow> nat list \<Rightarrow> float64 \<Rightarrow> py_error + ndarray" where
  "imul_rows (Scalar x) cluster a = Inl IndexError"
| "imul_rows (Arr rs) cluster a =
     (if list_all (\<lambda>i. i < length rs) cluster
      then Inr (Arr (map (scale_row cluster a) (zip [0..<length rs] rs)))
      else Inl IndexError)"

subsection \<open>The long/short adjustment with a body\<close>

text \<open>
  \<^verbatim>\<open>build_long_short_portfolio(weights, side_weights)\<close>, lines 114-133, is defined in
  the class body without \<^verbatim>\<open>self\<close> and is called nowhere in the module. It is embedded
  for one-dimensional arrays: \<open>weights\<close> holds finite floats on entry, so the divisor
  of each division is a finite sum (an entry has side -1 or side 1, not both).

  \<^verbatim>\<open>np.where(cond)\<close> with one argument returns a tuple with one index array per axis of
  the condition: for a one-dimensional condition a tuple of length 1, whatever the
  condition holds. Line 123 tests the length of that tuple.
\<close>

definition np_where :: "bool list \<Rightarrow> nat list list" where
  "np_where cond = [filter (\<lambda>i. cond ! i) [0..<length cond]]"

text \<open>
  \<^verbatim>\<open>weights[ptf]\<close> for a tuple holding one index array selects the entries named by the
  array: IndexError when an index is not below the length. (A tuple of another length
  does not come out of \<open>np_where\<close>.)
\<close>

definition selected :: "float64 list \<Rightarrow> nat list list \<Rightarrow> py_error + float64 list" where
  "selected ws ptf =
     (case ptf of
        [idx] \<Rightarrow> if list_all (\<lambda>i. i < length ws) idx then Inr (map (\<lambda>i. ws ! i) idx) else Inl IndexError
      | _ \<Rightarrow> Inl IndexError)"

text \<open>
  \<^verbatim>\<open>weights[ptf] op= v\<close>: the selected entries are replaced by \<open>f\<close> of their value. With
  an empty selection nothing is computed.
\<close>

definition update_selected :: "float64 list \<Rightarrow> nat list list \<Rightarrow> (float64 \<Rightarrow> float64) \<Rightarrow> float64 list" where
  "update_selected ws ptf f =
     map (\<lambda>(i, x). if i \<in> set (concat ptf) then f x else x) (zip [0..<length ws] ws)"

definition rescale :: "float64 list \<Rightarrow> nat list list \<Rightarrow> real \<Rightarrow> py_error + float64 list" where
  "rescale ws ptf half =
     (case selected ws ptf of
        Inl e \<Rightarrow> Inl e
      | Inr sel \<Rightarrow>
          Inr (update_selected (update_selected ws ptf (\<lambda>x. fdiv x (np_sum sel))) ptf
                 (\<lambda>x. fmul x (Some half))))"

definition build_long_short_portfolio :: "real list \<Rightarrow> real list \<Rightarrow> py_error + float64 list" where
  "build_long_short_portfolio weights side_weights =
     (let short_ptf = np_where (map (\<lambda>s. s = - 1) side_weights);
          buy_ptf = np_where (map (\<lambda>s. s = 1) side_weights)
      in if length short_ptf > 0
         then (case rescale (map Some weights) short_ptf (- 0.5) of
                 Inl e \<Rightarrow> Inl e
               | Inr ws \<Rightarrow> rescale ws buy_ptf 0.5)
         else Inr (map Some weights))"

subsection \<open>The object\<close>

text \<open>
  \<^verbatim>\<open>__init__\<close> sets \<^verbatim>\<open>weights = list()\<close>, \<^verbatim>\<open>ordered_indices = None\<close> and
  \<^verbatim>\<open>clusters = None\<close>. The field \<^verbatim>\<open>weights\<close> later holds a numpy array and, at the
  end of the recursive bisection, a dict from asset name to the array's row.
\<close>

datatype weights_value =
    Empty_list
  | Array ndarray
  | Dict "string \<rightharpoonup> ndarray"

record hrp =
  weights :: weights_value
  ordered_indices :: "nat list option"
  clusters :: "matrix option"

definition init :: hrp where
  "init = \<lparr>weights = Empty_list, ordered_indices = None, clusters = None\<rparr>"

subsection \<open>The cluster variance\<close>

text \<open>
  \<^verbatim>\<open>_get_cluster_variance(self, covariance_matrix, cluster_items)\<close> (lines 134-147)
  first evaluates \<^verbatim>\<open>covariance_matrix[np.ix_(cluster_items, cluster_items)]\<close>, which
  raises IndexError for an index outside the matrix, and binds the result to
  \<^verbatim>\<open>cluster_covariance\<close>. The next statement reads \<^verbatim>\<open>cov_slice\<close>, a name bound
  nowhere in the module: NameError. The inverse-variance weights and the quadratic form
  of lines 145-147 are never evaluated.
\<close>

definition get_cluster_variance :: "matrix \<Rightarrow> nat list \<Rightarrow> py_error + real" where
  "get_cluster_variance covariance_matrix cluster_items =
     (if list_all (\<lambda>i. i < nrows covariance_matrix \<and> i < ncols covariance_matrix) cluster_items
      then Inl (NameError ''cov_slice'')
      else Inl IndexError)"






subsection \<open>Recursive bisection\<close>

text \<open>
  \<^verbatim>\<open>cluster[start:stop]\<close> for \<open>0 \<le> start\<close> and \<open>0 \<le> stop\<close>.
\<close>

definition py_slice :: "'a list \<Rightarrow> nat \<Rightarrow> nat \<Rightarrow> 'a list" where
  "py_slice xs start stop = drop start (take stop xs)"

text \<open>
  Lines 160-163, the list comprehension that rebuilds the worklist:
  \<^verbatim>\<open>[cluster[start:end] for cluster in clustered_alphas
     for start, end in ((0, len(cluster) // 2), (len(cluster) // 2, len(cluster)))
     if len(cluster) > 1]\<close>
\<close>

definition split_clusters :: "'a list list \<Rightarrow> 'a list list" where
  "split_clusters clustered_alphas =
     concat (map (\<lambda>cluster.
       concat (map (\<lambda>(start, stop). if length cluster > 1 then [py_slice cluster start stop] else [])
         [(0, length cluster div 2), (length cluster div 2, length cluster)]))
       clustered_alphas)"

text \<open>
  Line 172: \<^verbatim>\<open>alloc_factor = 1 - left / (left + right)\<close> on numpy float64 values, which
  is what \<^verbatim>\<open>np.linalg.multi_dot\<close> of line 147 returns. There is no test of the
  denominator; a zero denominator gives a non-finite quotient. (Python floats would
  raise ZeroDivisionError instead.)
\<close>

definition alloc_factor :: "real \<Rightarrow> real \<Rightarrow> float64" where
  "alloc_factor left_cluster_variance right_cluster_variance =
     (if left_cluster_variance + right_cluster_variance = 0 then None
      else Some (1 - left_cluster_variance / (left_cluster_variance + right_cluster_variance)))"

text \<open>
  Lines 165-176, the loop over the pairs of the rebuilt worklist. The method
  \<^verbatim>\<open>self._get_cluster_variance\<close> is looked up on the object at each call, so the
  loop is embedded for any such method \<open>gcv\<close> that raises or returns a numpy float64;
  \<open>get_cluster_variance\<close> above is the one the class defines. The result is the exception raised (if any) and the weights array
  as the loop leaves it.
\<close>

fun assign_weights ::
  "(matrix \<Rightarrow> nat list \<Rightarrow> py_error + real) \<Rightarrow> matrix \<Rightarrow> nat list list \<Rightarrow> ndarray
     \<Rightarrow> py_error option \<times> ndarray" where
  "assign_weights gcv covariance [] w = (None, w)"
| "assign_weights gcv covariance [left_cluster] w = (Some IndexError, w)"
| "assign_weights gcv covariance (left_cluster # right_cluster # rest) w =
     (case gcv covariance left_cluster of
        Inl e \<Rightarrow> (Some e, w)
      | Inr left_cluster_variance \<Rightarrow>
     (case gcv covariance right_cluster of
        Inl e \<Rightarrow> (Some e, w)
      | Inr right_cluster_variance \<Rightarrow>
     (case imul_rows w left_cluster (alloc_factor left_cluster_variance right_cluster_variance) of
        Inl e \<Rightarrow> (Some e, w)
      | Inr w1 \<Rightarrow>
     (case imul_rows w1 right_cluster
             (one_minus (alloc_factor left_cluster_variance right_cluster_variance)) of
        Inl e \<Rightarrow> (Some e, w1)
      | Inr w2 \<Rightarrow> assign_weights gcv covariance rest w2))))"

text \<open>The length of the longest range of a worklist, and the measure of the loop.\<close>

definition max_len :: "'a list list \<Rightarrow> nat" where
  "max_len cs = fold max (map length cs) 0"

definition worklist_measure :: "'a list list \<Rightarrow> nat" where
  "worklist_measure cs = (if cs = [] then 0 else Suc (max_len cs))"

lemma py_slice_take: "py_slice c 0 n = take n c"
  by (simp add: py_slice_def)

lemma py_slice_drop: "py_slice c n (length c) = drop n c"
  by (simp add: py_slice_def)

lemma split_clusters_halves:
  "split_clusters cs =
     concat (map (\<lambda>c. if 1 < length c then [take (length c div 2) c, drop (length c div 2) c] else []) cs)"
  unfolding split_clusters_def by (induction cs) (auto simp: py_slice_take py_slice_drop)

lemma split_clusters_Nil [simp]: "split_clusters [] = []"
  by (simp add: split_clusters_def)

lemma split_clusters_Cons:
  "split_clusters (c # cs) =
     (if 1 < length c then [take (length c div 2) c, drop (length c div 2) c] else [])
       @ split_clusters cs"
  by (simp add: split_clusters_halves)

lemma split_clusters_append:
  "split_clusters (xs @ ys) = split_clusters xs @ split_clusters ys"
  by (simp add: split_clusters_halves)

lemma fold_max_ge: "(a::nat) \<le> fold max xs a"
  by (induction xs arbitrary: a) (auto intro: order_trans [OF max.cobounded2])

lemma fold_max_mem: "(x::nat) \<in> set xs \<Longrightarrow> x \<le> fold max xs a"
proof (induction xs arbitrary: a)
  case Nil
  then show ?case by simp
next
  case (Cons y ys)
  show ?case
  proof (cases "x = y")
    case True
    have "x \<le> max y a" using True by simp
    also have "\<dots> \<le> fold max ys (max y a)" by (rule fold_max_ge)
    finally show ?thesis by simp
  next
    case False
    with Cons.prems have "x \<in> set ys" by simp
    then show ?thesis using Cons.IH by simp
  qed
qed

lemma fold_max_attained: "fold max xs (a::nat) = a \<or> fold max xs a \<in> set xs"
proof (induction xs arbitrary: a)
  case Nil
  then show ?case by simp
next
  case (Cons y ys)
  from Cons.IH [of "max y a"] show ?case
    by (auto simp: max_def split: if_splits)
qed

lemma length_le_max_len: "c \<in> set cs \<Longrightarrow> length c \<le> max_len cs"
  unfolding max_len_def by (rule fold_max_mem) simp

lemma max_len_attained: "cs \<noteq> [] \<Longrightarrow> \<exists>c \<in> set cs. length c = max_len cs"
proof -
  assume ne: "cs \<noteq> []"
  have "max_len cs = 0 \<or> max_len cs \<in> set (map length cs)"
    unfolding max_len_def by (rule fold_max_attained)
  then show ?thesis
  proof
    assume z: "max_len cs = 0"
    from ne obtain c where c: "c \<in> set cs" by (cases cs) auto
    with length_le_max_len [OF c] z have "length c = max_len cs" by simp
    with c show ?thesis by blast
  next
    assume "max_len cs \<in> set (map length cs)"
    then show ?thesis by auto
  qed
qed

lemma split_clusters_parent:
  "x \<in> set (split_clusters cs) \<Longrightarrow> \<exists>c \<in> set cs. 1 < length c \<and> length x < length c \<and> x \<noteq> []"
  by (induction cs) (auto simp: split_clusters_Cons split: if_splits)

lemma max_len_split_less:
  assumes "split_clusters cs \<noteq> []"
  shows "max_len (split_clusters cs) < max_len cs"
proof -
  from max_len_attained [OF assms] obtain x
    where x: "x \<in> set (split_clusters cs)" and mx: "length x = max_len (split_clusters cs)"
    by blast
  from split_clusters_parent [OF x] obtain c
    where c: "c \<in> set cs" and lt: "length x < length c" by blast
  from length_le_max_len [OF c] lt mx show ?thesis by simp
qed

lemma worklist_measure_decreases:
  "cs \<noteq> [] \<Longrightarrow> worklist_measure (split_clusters cs) < worklist_measure cs"
  using max_len_split_less [of cs] by (simp add: worklist_measure_def)

text \<open>
  Lines 159-176, the \<^verbatim>\<open>while clustered_alphas:\<close> loop: a non-empty worklist is rebuilt
  by the comprehension, then its pairs are processed. An exception leaves the loop.
\<close>

function bisection_loop ::
  "(matrix \<Rightarrow> nat list \<Rightarrow> py_error + real) \<Rightarrow> matrix \<Rightarrow> nat list list \<Rightarrow> ndarray
     \<Rightarrow> py_error option \<times> ndarray" where
  "bisection_loop gcv covariance clustered_alphas w =
     (if clustered_alphas = [] then (None, w)
      else (case assign_weights gcv covariance (split_clusters clustered_alphas) w of
              (Some e, w') \<Rightarrow> (Some e, w')
            | (None, w') \<Rightarrow> bisection_loop gcv covariance (split_clusters clustered_alphas) w'))"
  by pat_completeness auto
termination
  by (relation "measure (\<lambda>(gcv, covariance, clustered_alphas, w). worklist_measure clustered_alphas)")
     (auto simp: worklist_measure_decreases)

declare bisection_loop.simps [simp del]

text \<open>
  The same loop with a bound on the number of iterations of the \<^verbatim>\<open>while\<close>: \<open>None\<close>
  when the bound is reached before the loop is left.
\<close>

fun bisection_loop_fuel ::
  "nat \<Rightarrow> (matrix \<Rightarrow> nat list \<Rightarrow> py_error + real) \<Rightarrow> matrix \<Rightarrow> nat list list \<Rightarrow> ndarray
     \<Rightarrow> (py_error option \<times> ndarray) option" where
  "bisection_loop_fuel 0 gcv covariance clustered_alphas w =
     (if clustered_alphas = [] then Some (None, w) else None)"
| "bisection_loop_fuel (Suc fuel) gcv covariance clustered_alphas w =
     (if clustered_alphas = [] then Some (None, w)
      else (case assign_weights gcv covariance (split_clusters clustered_alphas) w of
              (Some e, w') \<Rightarrow> Some (Some e, w')
            | (None, w') \<Rightarrow> bisection_loop_fuel fuel gcv covariance (split_clusters clustered_alphas) w'))"

text \<open>
  \<^verbatim>\<open>_recursive_bisection(self, covariance, indices, assets)\<close>, lines 149-179.
  Line 156 builds the weights with \<^verbatim>\<open>np.ones(indices, dtype=np.float64)\<close>: the list of
  ordered indices is passed as the shape. Line 157 starts the worklist from the field
  \<^verbatim>\<open>self.ordered_indices\<close>, not from the argument; when the field is \<^verbatim>\<open>None\<close> the
  comprehension calls \<^verbatim>\<open>len(None)\<close>: TypeError. Line 179 zips the asset names with the
  rows of the array (iterating a zero-dimensional array is a TypeError); in a dict a key
  that occurs twice keeps its last value.
\<close>

definition recursive_bisection_with ::
  "(matrix \<Rightarrow> nat list \<Rightarrow> py_error + real) \<Rightarrow> hrp \<Rightarrow> matrix \<Rightarrow> nat list \<Rightarrow> string list
     \<Rightarrow> py_error option \<times> hrp" where
  "recursive_bisection_with gcv self covariance indices assets =
     (case ordered_indices self of
        None \<Rightarrow> (Some TypeError, self\<lparr>weights := Array (np_ones indices)\<rparr>)
      | Some oi \<Rightarrow>
          (case bisection_loop gcv covariance [oi] (np_ones indices) of
             (Some e, w) \<Rightarrow> (Some e, self\<lparr>weights := Array w\<rparr>)
           | (None, Scalar x) \<Rightarrow> (Some TypeError, self\<lparr>weights := Array (Scalar x)\<rparr>)
           | (None, Arr rs) \<Rightarrow> (None, self\<lparr>weights := Dict (map_of (rev (zip assets rs)))\<rparr>)))"

definition recursive_bisection ::
  "hrp \<Rightarrow> matrix \<Rightarrow> nat list \<Rightarrow> string list \<Rightarrow> py_error option \<times> hrp" where
  "recursive_bisection = recursive_bisection_with get_cluster_variance"

subsection \<open>The long/short adjustment that allocate calls\<close>

text \<open>
  \<^verbatim>\<open>_build_long_short_portfolio(self, side_weights)\<close>, lines 106-112: the body is the
  docstring alone. The method returns \<^verbatim>\<open>None\<close> and leaves the object as it is.
\<close>

definition self_build_long_short_portfolio :: "hrp \<Rightarrow> real list \<Rightarrow> py_error option \<times> hrp" where
  "self_build_long_short_portfolio self side = (None, self)"

subsection \<open>The distance matrix\<close>

text \<open>
  Line 77: \<^verbatim>\<open>np.sqrt((1 - correlation_matrix).round(5) / 2)\<close>, entry by entry.
  \<^verbatim>\<open>round(5)\<close> scales by \<open>10 ^ 5\<close>, rounds to the nearest integer (a tie goes to the
  even one) and scales back; \<^verbatim>\<open>np.sqrt\<close> of a negative number is \<^verbatim>\<open>nan\<close>. The
  correlation matrix is what \<^verbatim>\<open>np.corrcoef\<close> returns: its entries are floats that may
  be \<^verbatim>\<open>nan\<close> (a row of zero variance), and a non-finite correlation gives a non-finite
  distance. There is no clamp.
\<close>

definition rint :: "real \<Rightarrow> int" where
  "rint x =
     (let f = \<lfloor>x\<rfloor>; d = x - of_int f
      in if d < 1 / 2 then f else if 1 / 2 < d then f + 1 else if even f then f else f + 1)"

definition np_round :: "nat \<Rightarrow> real \<Rightarrow> real" where
  "np_round decimals x = of_int (rint (x * 10 ^ decimals)) / 10 ^ decimals"

definition np_sqrt :: "real \<Rightarrow> float64" where
  "np_sqrt x = (if x < 0 then None else Some (sqrt x))"

definition distance_entry :: "float64 \<Rightarrow> float64" where
  "distance_entry correlation =
     (case correlation of None \<Rightarrow> None | Some c \<Rightarrow> np_sqrt (np_round 5 (1 - c) / 2))"

definition derive_distance :: "float64 list list \<Rightarrow> float64 list list" where
  "derive_distance correlation_matrix = map (map distance_entry) correlation_matrix"

text \<open>
  The specification's formula for an entry, in its words: the term \<open>1 - correlation\<close>
  rounded to 5 decimals and clamped to \<open>[0, 2]\<close>, halved, under the square root.
\<close>

definition clamp :: "real \<Rightarrow> real \<Rightarrow> real \<Rightarrow> real" where
  "clamp x lo hi = max lo (min hi x)"

definition distance_spec :: "real \<Rightarrow> real" where
  "distance_spec correlation = sqrt (clamp (np_round 5 (1 - correlation)) 0 2 / 2)"

subsection \<open>allocate\<close>

text \<open>
  The arguments of \<^verbatim>\<open>allocate\<close>; an argument left out is \<^verbatim>\<open>None\<close>. The asset names
  are an array of strings: line 85 indexes them with the list of ordered indices.
\<close>

record allocate_args =
  asset_names :: "string list"
  asset_prices :: "matrix option"
  asset_returns :: "matrix option"
  covariance_matrix :: "matrix option"
  distance_matrix :: "matrix option"
  side_weights :: "real list option"
  linkage :: string

text \<open>
  What \<^verbatim>\<open>allocate\<close> calls and the module does not define. \<^verbatim>\<open>self._error_checks\<close>
  (line 55) has no definition in the file; it is a parameter, given the three arguments
  of the call, and returns the exception it raises, if any. The numpy functions of
  lines 68, 72 and 75 are parameters too: \<open>price_returns\<close> is
  \<^verbatim>\<open>np.diff(asset_prices) / asset_prices[:, :-1]\<close>.
\<close>

record externals =
  error_checks :: "matrix option \<Rightarrow> matrix option \<Rightarrow> matrix option \<Rightarrow> py_error option"
  price_returns :: "matrix option \<Rightarrow> py_error + matrix"
  np_cov :: "matrix option \<Rightarrow> py_error + matrix"
  np_corrcoef :: "matrix option \<Rightarrow> py_error + float64 list list"

text \<open>
  Line 80, \<^verbatim>\<open>self.clusters = scipy_linkage(squareform(distance.values), method=method)\<close>:
  the names \<^verbatim>\<open>distance\<close> and \<^verbatim>\<open>method\<close> are bound neither in \<^verbatim>\<open>allocate\<close> (its
  variables are \<^verbatim>\<open>distance_matrix\<close> and \<^verbatim>\<open>linkage\<close>) nor in the module. The
  arguments are evaluated before the call and the assignment, so the statement raises
  NameError on \<^verbatim>\<open>distance\<close> and assigns nothing.
\<close>

definition tree_clustering :: "hrp \<Rightarrow> float64 list list \<Rightarrow> string \<Rightarrow> py_error option \<times> hrp" where
  "tree_clustering self dm lk = (Some (NameError ''distance''), self)"

text \<open>
  Line 84, \<^verbatim>\<open>ordered_indices = to_tree(clusters, rd=False).pre_order()\<close>: line 80
  assigned the field \<^verbatim>\<open>self.clusters\<close>; the plain name \<^verbatim>\<open>clusters\<close> is bound
  nowhere, and the statement raises NameError before \<^verbatim>\<open>to_tree\<close> is called.
\<close>

definition quasi_diagonalization :: "hrp \<Rightarrow> py_error + nat list" where
  "quasi_diagonalization self = Inl (NameError ''clusters'')"

text \<open>
  \<^verbatim>\<open>allocate\<close>, lines 31-93, statement by statement. Line 92 reads the name
  \<^verbatim>\<open>indices\<close>, which is bound nowhere, when no side weights are given.
\<close>

definition allocate :: "externals \<Rightarrow> hrp \<Rightarrow> allocate_args \<Rightarrow> py_error option \<times> hrp" where
  "allocate ext self args =
     (case error_checks ext (asset_prices args) (asset_returns args) (covariance_matrix args) of
        Some e \<Rightarrow> (Some e, self)
      | None \<Rightarrow>
     (case (if asset_returns args = None \<and> covariance_matrix args = None
            then (case price_returns ext (asset_prices args) of
                    Inl e \<Rightarrow> Inl e | Inr r \<Rightarrow> Inr (Some r))
            else Inr (asset_returns args)) of
        Inl e \<Rightarrow> (Some e, self)
      | Inr returns \<Rightarrow>
     (case (case covariance_matrix args of
              None \<Rightarrow> np_cov ext returns | Some c \<Rightarrow> Inr c) of
        Inl e \<Rightarrow> (Some e, self)
      | Inr covariance \<Rightarrow>
     (case np_corrcoef ext returns of
        Inl e \<Rightarrow> (Some e, self)
      | Inr correlation_matrix \<Rightarrow>
     (case tree_clustering self
             (case distance_matrix args of
                None \<Rightarrow> derive_distance correlation_matrix
              | Some d \<Rightarrow> map (map Some) d)
             (linkage args) of
        (Some e, self1) \<Rightarrow> (Some e, self1)
      | (None, self1) \<Rightarrow>
     (case quasi_diagonalization self1 of
        Inl e \<Rightarrow> (Some e, self1)
      | Inr ordered \<Rightarrow>
     (if \<not> list_all (\<lambda>i. i < length (asset_names args)) ordered then (Some IndexError, self1)
      else
     (case recursive_bisection self1 covariance ordered (asset_names args) of
        (Some e, self2) \<Rightarrow> (Some e, self2)
      | (None, self2) \<Rightarrow>
     (case side_weights args of
        None \<Rightarrow> (Some (NameError ''indices''), self2)
      | Some side \<Rightarrow> self_build_long_short_portfolio self2 side)))))))))"

text \<open>
  Modelled from the spec: \<^verbatim>\<open>_error_checks\<close>, the input check that line 55 calls and
  the file does not define. The specification has it fail with \<open>InvalidInputError\<close>
  when no usable source is given, where at least one of prices, returns and covariance
  must be supplied; these three are what the call passes.
\<close>

definition error_checks_spec :: "matrix option \<Rightarrow> matrix option \<Rightarrow> matrix option \<Rightarrow> py_error option" where
  "error_checks_spec prices returns cov =
     (if prices = None \<and> returns = None \<and> cov = None then Some InvalidInputError else None)"

text \<open>
  The parameters with that input check. The numpy functions stand for a library that
  rejects \<^verbatim>\<open>None\<close> and are otherwise left as the identity; no statement below
  depends on what they return.
\<close>

definition spec_externals :: externals where
  "spec_externals = \<lparr>error_checks = error_checks_spec,
     price_returns = (\<lambda>m. case m of None \<Rightarrow> Inl TypeError | Some a \<Rightarrow> Inr a),
     np_cov = (\<lambda>m. case m of None \<Rightarrow> Inl TypeError | Some a \<Rightarrow> Inr a),
     np_corrcoef = (\<lambda>m. case m of None \<Rightarrow> Inl TypeError | Some a \<Rightarrow> Inr (map (map Some) a))\<rparr>"

text \<open>
  The failure condition of the specification for \<^verbatim>\<open>allocate\<close>, in its words: none of
  returns, covariance and distance is supplied, or the dimensions of a supplied matrix
  disagree with the number of asset names.
\<close>

definition no_source_supplied :: "allocate_args \<Rightarrow> bool" where
  "no_source_supplied args =
     (asset_returns args = None \<and> covariance_matrix args = None \<and> distance_matrix args = None)"

definition square_of :: "nat \<Rightarrow> matrix option \<Rightarrow> bool" where
  "square_of n m = (case m of None \<Rightarrow> True | Some a \<Rightarrow> nrows a = n \<and> ncols a = n)"

definition one_row_per_asset :: "nat \<Rightarrow> matrix option \<Rightarrow> bool" where
  "one_row_per_asset n m = (case m of None \<Rightarrow> True | Some a \<Rightarrow> nrows a = n)"

definition dimensions_disagree :: "allocate_args \<Rightarrow> bool" where
  "dimensions_disagree args =
     (\<not> (square_of (length (asset_names args)) (covariance_matrix args)
         \<and> square_of (length (asset_names args)) (distance_matrix args)
         \<and> one_row_per_asset (length (asset_names args)) (asset_returns args)))"

text \<open>
  Three calls used below: no source at all, and a covariance matrix alone, for two
  assets and for one.
\<close>

definition no_arguments :: allocate_args where
  "no_arguments = \<lparr>asset_names = [''A'', ''B''], asset_prices = None, asset_returns = None,
     covariance_matrix = None, distance_matrix = None, side_weights = None,
     linkage = ''single''\<rparr>"

definition two_assets :: allocate_args where
  "two_assets = \<lparr>asset_names = [''A'', ''B''], asset_prices = None, asset_returns = None,
     covariance_matrix = Some [[1, 0], [0, 1]], distance_matrix = None, side_weights = None,
     linkage = ''single''\<rparr>"

definition one_asset :: allocate_args where
  "one_asset = \<lparr>asset_names = [''A''], asset_prices = None, asset_returns = None,
     covariance_matrix = Some [[1]], distance_matrix = None, side_weights = None,
     linkage = ''single''\<rparr>"

subsection \<open>Properties of the worklist\<close>

lemma bisection_loop_fuel_enough:
  "worklist_measure cs \<le> fuel \<Longrightarrow>
     bisection_loop_fuel fuel gcv covariance cs w = Some (bisection_loop gcv covariance cs w)"
proof (induction fuel arbitrary: cs w)
  case 0
  then have "cs = []" by (simp add: worklist_measure_def split: if_splits)
  then show ?case by (simp add: bisection_loop.simps)
next
  case (Suc fuel)
  show ?case
  proof (cases "cs = []")
    case True
    then show ?thesis by (simp add: bisection_loop.simps)
  next
    case False
    from worklist_measure_decreases [OF False] Suc.prems
    have le: "worklist_measure (split_clusters cs) \<le> fuel" by simp
    show ?thesis
    proof (cases "assign_weights gcv covariance (split_clusters cs) w")
      case (Pair r w')
      show ?thesis
      proof (cases r)
        case None
        with Pair False Suc.IH [OF le, of w'] show ?thesis
          by (simp add: bisection_loop.simps [of gcv covariance cs w])
      next
        case (Some e)
        with Pair False show ?thesis
          by (simp add: bisection_loop.simps [of gcv covariance cs w])
      qed
    qed
  qed
qed

lemma split_clusters_small: "max_len cs \<le> 1 \<Longrightarrow> split_clusters cs = []"
proof (rule ccontr)
  assume small: "max_len cs \<le> 1" and ne: "split_clusters cs \<noteq> []"
  then obtain x where "x \<in> set (split_clusters cs)" by (cases "split_clusters cs") auto
  from split_clusters_parent [OF this] obtain c where "c \<in> set cs" "1 < length c" by blast
  with length_le_max_len [of c cs] small show False by simp
qed

subsection \<open>Which weights an iteration touches\<close>

lemma imul_rows_Inr:
  "imul_rows w cl a = Inr w1 \<Longrightarrow>
     \<exists>rs rs1. w = Arr rs \<and> w1 = Arr rs1 \<and> length rs1 = length rs \<and>
       list_all (\<lambda>i. i < length rs) cl \<and>
       (\<forall>i < length rs. rs1 ! i = (if i \<in> set cl then scale a (rs ! i) else rs ! i))"
  by (cases w) (auto split: if_splits simp: scale_row_def)

lemma assign_weights_frame:
  "w = Arr rs \<Longrightarrow> assign_weights gcv covariance cs w = (r, w') \<Longrightarrow>
     \<exists>rs'. w' = Arr rs' \<and> length rs' = length rs \<and>
       (\<forall>i < length rs. i \<notin> \<Union>(set ` set cs) \<longrightarrow> rs' ! i = rs ! i)"
proof (induction gcv covariance cs w arbitrary: rs rule: assign_weights.induct)
  case (1 gcv covariance w)
  then show ?case by auto
next
  case (2 gcv covariance left_cluster w)
  then show ?case by auto
next
  case (3 gcv covariance left_cluster right_cluster rest w)
  note w = \<open>w = Arr rs\<close>
  show ?case
  proof (cases "gcv covariance left_cluster")
    case (Inl e)
    with "3.prems" show ?thesis by auto
  next
    case lv: (Inr lv)
    show ?thesis
    proof (cases "gcv covariance right_cluster")
      case (Inl e)
      with lv "3.prems" show ?thesis by auto
    next
      case rv: (Inr rv)
      show ?thesis
      proof (cases "imul_rows w left_cluster (alloc_factor lv rv)")
        case (Inl e)
        with lv rv "3.prems" show ?thesis by auto
      next
        case w1: (Inr w1)
        from imul_rows_Inr [OF w1] w obtain rs1 where
          rs1: "w1 = Arr rs1" "length rs1 = length rs"
            "\<forall>i < length rs. rs1 ! i = (if i \<in> set left_cluster then scale (alloc_factor lv rv) (rs ! i) else rs ! i)"
          by auto
        show ?thesis
        proof (cases "imul_rows w1 right_cluster (one_minus (alloc_factor lv rv))")
          case (Inl e)
          with lv rv w1 "3.prems" rs1 show ?thesis by auto
        next
          case w2: (Inr w2)
          from imul_rows_Inr [OF w2] rs1 obtain rs2 where
            rs2: "w2 = Arr rs2" "length rs2 = length rs"
              "\<forall>i < length rs. rs2 ! i = (if i \<in> set right_cluster then scale (one_minus (alloc_factor lv rv)) (rs1 ! i) else rs1 ! i)"
            by auto
          from "3.prems" lv rv w1 w2
          have rest: "assign_weights gcv covariance rest w2 = (r, w')"
            by simp
          from "3.IH" [OF lv rv w1 w2 rs2(1) rest]
          obtain rs' where "w' = Arr rs'" "length rs' = length rs2"
            "\<forall>i < length rs2. i \<notin> \<Union>(set ` set rest) \<longrightarrow> rs' ! i = rs2 ! i" by blast
          with rs1 rs2 show ?thesis by auto
        qed
      qed
    qed
  qed
qed

lemma split_clusters_subset: "\<Union>(set ` set (split_clusters cs)) \<subseteq> \<Union>(set ` set cs)"
proof
  fix i assume "i \<in> \<Union>(set ` set (split_clusters cs))"
  then obtain x where x: "x \<in> set (split_clusters cs)" "i \<in> set x" by blast
  then show "i \<in> \<Union>(set ` set cs)"
    by (induction cs) (auto simp: split_clusters_Cons split: if_splits dest: in_set_takeD in_set_dropD)
qed

lemma bisection_loop_frame:
  "w = Arr rs \<Longrightarrow> bisection_loop gcv covariance cs w = (r, w') \<Longrightarrow>
     \<exists>rs'. w' = Arr rs' \<and> length rs' = length rs \<and>
       (\<forall>i < length rs. i \<notin> \<Union>(set ` set (split_clusters cs)) \<longrightarrow> rs' ! i = rs ! i)"
proof (induction gcv covariance cs w arbitrary: rs rule: bisection_loop.induct)
  case (1 gcv covariance cs w)
  show ?case
  proof (cases "cs = []")
    case True
    with "1.prems" show ?thesis by (auto simp add: bisection_loop.simps)
  next
    case False
    obtain r1 w1 where step: "assign_weights gcv covariance (split_clusters cs) w = (r1, w1)"
      by (cases "assign_weights gcv covariance (split_clusters cs) w")
    from assign_weights_frame [OF "1.prems"(1) step] obtain rs1 where
      rs1: "w1 = Arr rs1" "length rs1 = length rs"
        "\<forall>i < length rs. i \<notin> \<Union>(set ` set (split_clusters cs)) \<longrightarrow> rs1 ! i = rs ! i" by blast
    show ?thesis
    proof (cases r1)
      case (Some e)
      with step False have "bisection_loop gcv covariance cs w = (Some e, w1)"
        by (simp add: bisection_loop.simps [of gcv covariance cs w])
      with "1.prems"(2) have "w' = w1" by simp
      with rs1 show ?thesis by simp
    next
      case None
      with step False
      have "bisection_loop gcv covariance cs w = bisection_loop gcv covariance (split_clusters cs) w1"
        by (simp add: bisection_loop.simps [of gcv covariance cs w])
      with "1.prems"(2)
      have rest: "bisection_loop gcv covariance (split_clusters cs) w1 = (r, w')"
        by simp
      from "1.IH" [OF False step [symmetric] None rs1(1) rest] obtain rs' where
        rs': "w' = Arr rs'" "length rs' = length rs1"
          "\<forall>i < length rs1. i \<notin> \<Union>(set ` set (split_clusters (split_clusters cs))) \<longrightarrow> rs' ! i = rs1 ! i"
        by blast
      have "rs' ! i = rs ! i"
        if i: "i < length rs" "i \<notin> \<Union>(set ` set (split_clusters cs))" for i
      proof -
        from i split_clusters_subset [of "split_clusters cs"]
        have "i \<notin> \<Union>(set ` set (split_clusters (split_clusters cs)))" by blast
        with rs'(3) rs1(2) i(1) have "rs' ! i = rs1 ! i" by simp
        also from rs1(3) i have "\<dots> = rs ! i" by simp
        finally show ?thesis .
      qed
      with rs1 rs' show ?thesis by simp
    qed
  qed
qed

lemma singleton_not_split:
  assumes "distinct (concat cs)" and "[i] \<in> set cs"
  shows "i \<notin> \<Union>(set ` set (split_clusters cs))"
proof
  assume "i \<in> \<Union>(set ` set (split_clusters cs))"
  then obtain x where x: "x \<in> set (split_clusters cs)" "i \<in> set x" by blast
  then have "\<exists>c \<in> set cs. 1 < length c \<and> i \<in> set c"
    by (induction cs) (auto simp: split_clusters_Cons split: if_splits dest: in_set_takeD in_set_dropD)
  then obtain c where c: "c \<in> set cs" "1 < length c" "i \<in> set c" by blast
  then have "c \<noteq> [i]" by auto
  with assms c have "set c \<inter> set [i] = {}"
    by (simp only: distinct_concat_iff) blast
  with c show False by simp
qed

subsection \<open>allocate never gets past line 80\<close>

lemma allocate_state: "snd (allocate ext self args) = self"
  by (simp add: allocate_def tree_clustering_def split: option.splits sum.splits)

lemma allocate_raises: "fst (allocate ext self args) \<noteq> None"
  by (simp add: allocate_def tree_clustering_def split: option.splits sum.splits)

lemma allocate_ignores_names_and_distance:
  "allocate ext self (args\<lparr>asset_names := names, distance_matrix := d\<rparr>) = allocate ext self args"
  by (simp add: allocate_def tree_clustering_def cong: option.case_cong sum.case_cong if_cong)

subsection \<open>Rounding stays between integers\<close>

lemma rint_lower: "\<lfloor>x\<rfloor> \<le> rint x"
  by (simp add: rint_def Let_def)

lemma rint_nonneg: "0 \<le> x \<Longrightarrow> 0 \<le> rint x"
  using rint_lower [of x] by (simp add: order_trans [OF _ rint_lower])

lemma rint_upper: "x \<le> of_int n \<Longrightarrow> rint x \<le> n"
proof -
  assume le: "x \<le> of_int n"
  then have fl: "\<lfloor>x\<rfloor> \<le> n" by (simp add: floor_le_iff)
  show ?thesis
  proof (cases "\<lfloor>x\<rfloor> = n")
    case True
    with le have "x = of_int n" using of_int_floor_le [of x] by simp
    then show ?thesis by (simp add: rint_def)
  next
    case False
    with fl have "\<lfloor>x\<rfloor> + 1 \<le> n" by simp
    then show ?thesis by (simp add: rint_def Let_def)
  qed
qed

lemma rint_nearest:
  "\<bar>of_int (rint x) - x\<bar> \<le> 1 / 2 \<and> (\<bar>of_int (rint x) - x\<bar> = 1 / 2 \<longrightarrow> even (rint x))"
proof -
  let ?f = "\<lfloor>x\<rfloor>"
  have lo: "of_int ?f \<le> x" and hi: "x < of_int ?f + 1" by linarith+
  consider "x - of_int ?f < 1 / 2" | "1 / 2 < x - of_int ?f" | "x - of_int ?f = 1 / 2" by linarith
  then show ?thesis
  proof cases
    case 1
    then have r: "rint x = ?f" by (simp add: rint_def Let_def)
    from 1 lo have "\<bar>of_int ?f - x\<bar> < 1 / 2" by linarith
    with r show ?thesis by simp
  next
    case 2
    then have r: "rint x = ?f + 1" by (simp add: rint_def Let_def)
    from 2 hi have "\<bar>of_int (?f + 1) - x\<bar> < 1 / 2" by simp
    with r show ?thesis by simp
  next
    case 3
    show ?thesis
    proof (cases "even ?f")
      case True
      with 3 have r: "rint x = ?f" by (simp add: rint_def Let_def)
      from 3 have "\<bar>of_int ?f - x\<bar> = 1 / 2" by linarith
      with r True show ?thesis by simp
    next
      case False
      with 3 have r: "rint x = ?f + 1" by (simp add: rint_def Let_def)
      from 3 have "\<bar>of_int (?f + 1) - x\<bar> = 1 / 2" by simp
      with r False show ?thesis by simp
    qed
  qed
qed

section \<open>The claims\<close>

subsection \<open>The worklist of the recursive bisection\<close>

text \<open>
  Claim C4. The comprehension replaces, in place, every range of length \<open>L > 1\<close> of
  the worklist by exactly the two slices \<open>[0, L div 2)\<close> and \<open>[L div 2, L)\<close>, which
  together are the range; the left slice has \<open>L div 2\<close> elements and the right one
  \<open>L div 2 + L mod 2\<close>, one more when \<open>L\<close> is odd. A range of length at most 1
  yields nothing. When the ranges of the worklist are pairwise disjoint, the weight of
  the asset of a singleton range is the same when the loop is left (normally or by an
  exception) as it was when the range was dropped.
\<close>

theorem split_clusters_contiguous_halves:
  "split_clusters (before @ cluster # after) =
       split_clusters before
       @ (if 1 < length cluster
          then [py_slice cluster 0 (length cluster div 2),
                py_slice cluster (length cluster div 2) (length cluster)]
          else [])
       @ split_clusters after
   \<and> py_slice cluster 0 (length cluster div 2)
       @ py_slice cluster (length cluster div 2) (length cluster) = cluster
   \<and> length (py_slice cluster 0 (length cluster div 2)) = length cluster div 2
   \<and> length (py_slice cluster (length cluster div 2) (length cluster))
       = length cluster div 2 + length cluster mod 2
   \<and> (cluster = [i] \<and> distinct (concat (before @ cluster # after)) \<and> i < length rs
        \<and> bisection_loop gcv covariance (before @ cluster # after) (Arr rs) = (r, w')
        \<longrightarrow> (\<exists>rs'. w' = Arr rs' \<and> rs' ! i = rs ! i))"
proof -
  have retained: "\<exists>rs'. w' = Arr rs' \<and> rs' ! i = rs ! i"
    if c: "cluster = [i]" and d: "distinct (concat (before @ cluster # after))"
      and i: "i < length rs"
      and run: "bisection_loop gcv covariance (before @ cluster # after) (Arr rs) = (r, w')"
  proof -
    from c have "[i] \<in> set (before @ cluster # after)" by simp
    from singleton_not_split [OF d this]
    have "i \<notin> \<Union>(set ` set (split_clusters (before @ cluster # after)))" .
    with bisection_loop_frame [OF refl run] i show ?thesis by auto
  qed
  have right: "length (drop (length cluster div 2) cluster) = length cluster div 2 + length cluster mod 2"
    by (simp, presburger)
  show ?thesis
  proof (intro conjI)
    show "split_clusters (before @ cluster # after) =
       split_clusters before
       @ (if 1 < length cluster
          then [py_slice cluster 0 (length cluster div 2),
                py_slice cluster (length cluster div 2) (length cluster)]
          else [])
       @ split_clusters after"
      by (simp add: split_clusters_append split_clusters_Cons py_slice_take py_slice_drop)
    show "py_slice cluster 0 (length cluster div 2)
       @ py_slice cluster (length cluster div 2) (length cluster) = cluster"
      by (simp add: py_slice_take py_slice_drop)
    show "length (py_slice cluster 0 (length cluster div 2)) = length cluster div 2"
      by (simp add: py_slice_take)
    show "length (py_slice cluster (length cluster div 2) (length cluster))
       = length cluster div 2 + length cluster mod 2"
      using right by (simp only: py_slice_drop)
    show "cluster = [i] \<and> distinct (concat (before @ cluster # after)) \<and> i < length rs
        \<and> bisection_loop gcv covariance (before @ cluster # after) (Arr rs) = (r, w')
        \<longrightarrow> (\<exists>rs'. w' = Arr rs' \<and> rs' ! i = rs ! i)"
      using retained by blast
  qed
qed


text \<open>
  The worklist \<open>[[0, 1], [2]]\<close> with a cluster variance of 1 everywhere: the singleton
  \<open>[2]\<close> is dropped, and asset 2 keeps its weight 1 while assets 0 and 1 are halved.
\<close>

theorem split_clusters_contiguous_halves_witness:
  "distinct (concat ([[0::nat, 1]] @ [2] # [])) \<and> (2::nat) < length [Scalar (Some 1), Scalar (Some 1), Scalar (Some 1)]
   \<and> bisection_loop (\<lambda>c items. Inr 1) [] ([[0, 1]] @ [2] # []) (Arr [Scalar (Some 1), Scalar (Some 1), Scalar (Some 1)])
       = (None, Arr [Scalar (Some (1 / 2)), Scalar (Some (1 / 2)), Scalar (Some 1)])
   \<and> split_clusters ([[0, 1]] @ [2::nat] # []) = [[0], [1]]"
  using split_clusters_contiguous_halves [of "[[0, 1]]" "[2]" "[]" 2
      "[Scalar (Some 1), Scalar (Some 1), Scalar (Some 1)]" "\<lambda>c items. Inr 1" "[]" None
      "Arr [Scalar (Some (1 / 2)), Scalar (Some (1 / 2)), Scalar (Some 1)]"]
  by (simp add: bisection_loop.simps split_clusters_Cons alloc_factor_def one_minus_def fmul_def scale_row_def)


text \<open>
  Claim C10. The loop returns for every worklist and every cluster-variance method:
  bounded by \<open>worklist_measure\<close> iterations, it gives the result of the unbounded
  loop. Each range produced by the comprehension is strictly shorter than a range of
  length greater than 1 it comes from, so the longest range gets strictly shorter as
  long as it is longer than 1, and then the worklist becomes empty.
\<close>

theorem bisection_loop_terminates:
  "bisection_loop_fuel (worklist_measure clustered_alphas) gcv covariance clustered_alphas w
     = Some (bisection_loop gcv covariance clustered_alphas w)
   \<and> (\<forall>x \<in> set (split_clusters clustered_alphas).
         \<exists>c \<in> set clustered_alphas. 1 < length c \<and> length x < length c)
   \<and> (1 < max_len clustered_alphas \<longrightarrow>
         max_len (split_clusters clustered_alphas) < max_len clustered_alphas)
   \<and> (max_len clustered_alphas \<le> 1 \<longrightarrow> split_clusters clustered_alphas = [])"
proof -
  have "max_len (split_clusters clustered_alphas) < max_len clustered_alphas"
    if "1 < max_len clustered_alphas"
  proof (cases "split_clusters clustered_alphas = []")
    case True
    with that show ?thesis by (simp add: max_len_def)
  next
    case False
    then show ?thesis by (rule max_len_split_less)
  qed
  moreover have "\<forall>x \<in> set (split_clusters clustered_alphas).
         \<exists>c \<in> set clustered_alphas. 1 < length c \<and> length x < length c"
    using split_clusters_parent [of _ clustered_alphas] by blast
  ultimately show ?thesis
    using bisection_loop_fuel_enough [OF order_refl, of clustered_alphas gcv covariance w]
      split_clusters_small [of clustered_alphas]
    by blast
qed


text \<open>
  The worklist \<open>[[0, 1, 2]]\<close>: the longest range shrinks from 3 to 2, then to 1, and
  the fourth rebuild gives the empty worklist.
\<close>

theorem bisection_loop_terminates_witness:
  "1 < max_len [[0::nat, 1, 2]]
   \<and> max_len (split_clusters [[0::nat, 1, 2]]) < max_len [[0::nat, 1, 2]]
   \<and> max_len (split_clusters (split_clusters (split_clusters [[0::nat, 1, 2]]))) \<le> 1
   \<and> split_clusters (split_clusters (split_clusters (split_clusters [[0::nat, 1, 2]]))) = []
   \<and> bisection_loop_fuel (worklist_measure [[0::nat, 1, 2]]) (\<lambda>c items. Inr 1) [] [[0, 1, 2]] (np_ones [3])
       = Some (bisection_loop (\<lambda>c items. Inr 1) [] [[0, 1, 2]] (np_ones [3]))"
  using bisection_loop_terminates [of "[[0, 1, 2]]" "\<lambda>c items. Inr 1" "[]" "np_ones [3]"]
    bisection_loop_terminates [of "split_clusters (split_clusters (split_clusters [[0::nat, 1, 2]]))"]
  by (simp add: split_clusters_Cons max_len_def)


subsection \<open>The allocation factor and the cluster variance\<close>


text \<open>
  Claim C2 at the covariance matrix \<open>[[1, 0], [0, 1]]\<close>: the cluster variance of \<open>[0]\<close>
  is not computed, the method raises NameError on \<^verbatim>\<open>cov_slice\<close>; the pair
  \<open>([0], [1])\<close> is left with that exception before any weight is multiplied.
\<close>

theorem get_cluster_variance_raises:
  "get_cluster_variance [[1, 0], [0, 1]] [0] = Inl (NameError ''cov_slice'')
   \<and> assign_weights get_cluster_variance [[1, 0], [0, 1]] [[0], [1]] w = (Some (NameError ''cov_slice''), w)"
  by (simp add: get_cluster_variance_def nrows_def ncols_def)


subsection \<open>The weights of the recursive bisection\<close>

text \<open>
  Claim C1 at two assets A and B with the covariance matrix \<open>[[1, 0], [0, 1]]\<close>, where
  the claim gives the weights one half each. \<^verbatim>\<open>allocate\<close> raises and leaves the
  weights of the object the empty list. \<^verbatim>\<open>_recursive_bisection\<close> itself, given the
  ordered indices \<open>[0, 1]\<close>, raises TypeError when the field \<^verbatim>\<open>ordered_indices\<close> is
  unset, and NameError (from the cluster variance) when it is set; with any
  cluster-variance method that returns, it raises IndexError, because
  \<^verbatim>\<open>np.ones([0, 1])\<close> is an array with no row. In each case no weight is assigned.
\<close>

theorem recursive_bisection_two_assets:
  "fst (allocate ext init two_assets) \<noteq> None
   \<and> weights (snd (allocate ext init two_assets)) = Empty_list
   \<and> recursive_bisection init [[1, 0], [0, 1]] [0, 1] [''A'', ''B'']
       = (Some TypeError, init\<lparr>weights := Array (Arr [])\<rparr>)
   \<and> recursive_bisection (init\<lparr>ordered_indices := Some [0, 1]\<rparr>) [[1, 0], [0, 1]] [0, 1] [''A'', ''B'']
       = (Some (NameError ''cov_slice''), init\<lparr>ordered_indices := Some [0, 1], weights := Array (Arr [])\<rparr>)
   \<and> recursive_bisection_with (\<lambda>c items. Inr 1) (init\<lparr>ordered_indices := Some [0, 1]\<rparr>)
         [[1, 0], [0, 1]] [0, 1] [''A'', ''B'']
       = (Some IndexError, init\<lparr>ordered_indices := Some [0, 1], weights := Array (Arr [])\<rparr>)"
  by (simp add: allocate_raises allocate_state init_def recursive_bisection_def
      recursive_bisection_with_def bisection_loop.simps split_clusters_Cons
      get_cluster_variance_def nrows_def ncols_def)


text \<open>
  Claim C9 at the single asset A with the covariance matrix \<open>[[1]]\<close>, where the claim
  gives the mapping of A to 1. \<^verbatim>\<open>allocate\<close> raises. \<^verbatim>\<open>_recursive_bisection\<close> itself,
  given the ordered indices \<open>[0]\<close>, returns the empty mapping when the field is set,
  because \<^verbatim>\<open>np.ones([0])\<close> is an array of length 0.
\<close>

theorem recursive_bisection_one_asset:
  "fst (allocate ext init one_asset) \<noteq> None
   \<and> weights (snd (allocate ext init one_asset)) = Empty_list
   \<and> recursive_bisection init [[1]] [0] [''A'']
       = (Some TypeError, init\<lparr>weights := Array (Arr [])\<rparr>)
   \<and> recursive_bisection (init\<lparr>ordered_indices := Some [0]\<rparr>) [[1]] [0] [''A'']
       = (None, init\<lparr>ordered_indices := Some [0], weights := Dict Map.empty\<rparr>)"
  by (simp add: allocate_raises allocate_state init_def recursive_bisection_def
      recursive_bisection_with_def bisection_loop.simps split_clusters_Cons)


subsection \<open>Quasi-diagonalization\<close>

text \<open>
  Claim C8 at the two assets above: the statement of line 84 raises NameError on
  \<^verbatim>\<open>clusters\<close>, \<^verbatim>\<open>allocate\<close> fails and no ordered index sequence is stored.
\<close>

theorem quasi_diagonalization_raises:
  "quasi_diagonalization self = Inl (NameError ''clusters'')
   \<and> fst (allocate ext init two_assets) \<noteq> None
   \<and> ordered_indices (snd (allocate ext init two_assets)) = None"
  by (simp add: quasi_diagonalization_def allocate_raises allocate_state init_def)


subsection \<open>The long/short adjustment\<close>

text \<open>
  Claim C6 at the weights one half each. The method \<^verbatim>\<open>allocate\<close> calls changes
  nothing: with sides \<open>[1, -1]\<close> the weights stay one half each, where the claim gives
  sums of one half and minus one half. The function with the body does rescale both
  sides to those sums; with an empty short side its test \<^verbatim>\<open>len(short_ptf) > 0\<close> still
  holds, and it halves the weights of the buy side.
\<close>

theorem long_short_adjustment_missing:
  "self_build_long_short_portfolio self [1, - 1] = (None, self)
   \<and> build_long_short_portfolio [1 / 2, 1 / 2] [1, - 1] = Inr [Some (1 / 2), Some (- 1 / 2)]
   \<and> build_long_short_portfolio [1 / 2, 1 / 2] [1, 1] = Inr [Some (1 / 4), Some (1 / 4)]
   \<and> build_long_short_portfolio [1 / 2, 1 / 2] [- 1, - 1] = Inr [Some (- 1 / 4), Some (- 1 / 4)]"
  by (simp add: self_build_long_short_portfolio_def build_long_short_portfolio_def np_where_def
      rescale_def selected_def update_selected_def np_sum_def fadd_def fdiv_def fmul_def upt_rec)


subsection \<open>The distance matrix\<close>

text \<open>
  Claim C5, as the code has it. Each entry of the derived distance matrix comes from
  the entry of the correlation matrix alone. A non-finite correlation gives a non-finite
  distance. For a finite correlation \<open>c\<close>, let \<open>k\<close> be the integer nearest to
  \<open>(1 - c) * 10 ^ 5\<close>, the even one on a tie: the entry is \<^verbatim>\<open>nan\<close> when \<open>k\<close> is
  negative and \<open>sqrt (k / 10 ^ 5 / 2)\<close> otherwise; nothing is clamped. For \<open>c\<close> in
  \<open>[-1, 1]\<close> the entry is a number in \<open>[0, 1]\<close> and equals the specification's clamped
  formula.
\<close>

theorem distance_entry_rounded_unclamped:
  "derive_distance correlation_matrix = map (map distance_entry) correlation_matrix
   \<and> distance_entry None = None
   \<and> (\<exists>k :: int. \<bar>of_int k - (1 - c) * 10 ^ 5\<bar> \<le> 1 / 2
         \<and> (\<bar>of_int k - (1 - c) * 10 ^ 5\<bar> = 1 / 2 \<longrightarrow> even k)
         \<and> distance_entry (Some c)
             = (if k < 0 then None else Some (sqrt (of_int k / 10 ^ 5 / 2))))
   \<and> (- 1 \<le> c \<and> c \<le> 1 \<longrightarrow>
        (\<exists>d. distance_entry (Some c) = Some d \<and> 0 \<le> d \<and> d \<le> 1 \<and> d = distance_spec c))"
proof (intro conjI)
  show "derive_distance correlation_matrix = map (map distance_entry) correlation_matrix"
    by (simp add: derive_distance_def)
  show "distance_entry None = None"
    by (simp add: distance_entry_def)
  let ?k = "rint ((1 - c) * 10 ^ 5)"
  have entry: "distance_entry (Some c)
      = (if ?k < 0 then None else Some (sqrt (of_int ?k / 10 ^ 5 / 2)))"
    by (simp add: distance_entry_def np_sqrt_def np_round_def divide_less_0_iff)
  from rint_nearest [of "(1 - c) * 10 ^ 5"] entry
  show "\<exists>k :: int. \<bar>of_int k - (1 - c) * 10 ^ 5\<bar> \<le> 1 / 2
         \<and> (\<bar>of_int k - (1 - c) * 10 ^ 5\<bar> = 1 / 2 \<longrightarrow> even k)
         \<and> distance_entry (Some c)
             = (if k < 0 then None else Some (sqrt (of_int k / 10 ^ 5 / 2)))"
    by (intro exI [of _ ?k]) blast
  show "- 1 \<le> c \<and> c \<le> 1 \<longrightarrow>
        (\<exists>d. distance_entry (Some c) = Some d \<and> 0 \<le> d \<and> d \<le> 1 \<and> d = distance_spec c)"
  proof
    assume c: "- 1 \<le> c \<and> c \<le> 1"
    then have "0 \<le> (1 - c) * 10 ^ 5" by simp
    then have lo: "0 \<le> ?k" by (rule rint_nonneg)
    from c have "(1 - c) * 10 ^ 5 \<le> of_int 200000" by simp
    then have hi: "?k \<le> 200000" by (rule rint_upper)
    from lo hi have b: "0 \<le> np_round 5 (1 - c)" "np_round 5 (1 - c) \<le> 2"
      by (simp_all add: np_round_def divide_le_eq)
    then have cl: "clamp (np_round 5 (1 - c)) 0 2 = np_round 5 (1 - c)"
      by (simp add: clamp_def)
    from b have "sqrt (np_round 5 (1 - c) / 2) \<le> sqrt 1"
      by (intro real_sqrt_le_mono) simp
    with b cl show "\<exists>d. distance_entry (Some c) = Some d \<and> 0 \<le> d \<and> d \<le> 1 \<and> d = distance_spec c"
      by (simp add: distance_entry_def distance_spec_def np_sqrt_def)
  qed
qed


text \<open>
  Correlations whose term \<open>(1 - c) * 10 ^ 5\<close> is 0.5, 1.5 and 1.6: the rounded integers
  are 0, 2 and 2 (ties to the even one). The correlation -1 gives the distance 1, and
  the correlation matrix of two perfectly anti-correlated assets gives distances 0 on
  the diagonal and 1 off it.
\<close>

theorem distance_entry_rounded_unclamped_witness:
  "\<bar>of_int 0 - (1 - (1 - 5 / 1000000)) * 10 ^ 5\<bar> = (1 / 2 :: real) \<and> even (0 :: int)
   \<and> distance_entry (Some (1 - 5 / 1000000)) = Some 0
   \<and> distance_entry (Some (1 - 15 / 1000000)) = Some (sqrt (1 / 100000))
   \<and> distance_entry (Some (1 - 16 / 1000000)) = Some (sqrt (1 / 100000))
   \<and> - 1 \<le> (- 1 :: real) \<and> (- 1 :: real) \<le> 1
   \<and> distance_entry (Some (- 1)) = Some 1 \<and> distance_spec (- 1) = 1
   \<and> derive_distance [[Some 1, Some (- 1)], [Some (- 1), Some 1]] = [[Some 0, Some 1], [Some 1, Some 0]]"
  using distance_entry_rounded_unclamped [of "[[Some 1, Some (- 1)], [Some (- 1), Some 1]]" "- 1"]
    distance_entry_rounded_unclamped [of "[]" "1 - 5 / 1000000"]
  by (simp add: distance_entry_def distance_spec_def clamp_def np_round_def np_sqrt_def rint_def)


text \<open>
  Claim C5 as stated fails. The correlation matrix of an asset with a constant return
  series has \<^verbatim>\<open>nan\<close> entries, and so has the distance matrix. A correlation of 1.0001
  gives \<^verbatim>\<open>nan\<close> where the clamped formula gives 0, and a correlation of -3 gives
  a distance above 1.
\<close>

theorem distance_unclamped_counterexample:
  "derive_distance [[Some 1, None], [None, None]] = [[Some 0, None], [None, None]]
   \<and> distance_entry (Some (1 + 1 / 10000)) = None
   \<and> distance_spec (1 + 1 / 10000) = 0
   \<and> distance_entry (Some (- 3)) = Some (sqrt 2)
   \<and> 1 < sqrt 2"
  by (simp add: derive_distance_def distance_entry_def distance_spec_def clamp_def np_round_def
      np_sqrt_def rint_def)


subsection \<open>The input check\<close>

text \<open>
  Claim C7, as the code has it. \<^verbatim>\<open>allocate\<close> runs the input check first, on the
  prices, the returns and the covariance matrix alone. When the check raises,
  \<^verbatim>\<open>allocate\<close> raises the same exception at once and the object is unchanged; the
  asset names and the distance matrix have no part in it.
\<close>

theorem allocate_input_check_first:
  "error_checks ext (asset_prices args) (asset_returns args) (covariance_matrix args) = Some e \<Longrightarrow>
     allocate ext self args = (Some e, self)
     \<and> allocate ext self (args\<lparr>asset_names := names, distance_matrix := d\<rparr>) = (Some e, self)"
  by (simp add: allocate_def)


text \<open>
  The call without any source, with the input check modelled from the specification:
  \<open>InvalidInputError\<close>, whether or not a distance matrix and other asset names are
  given.
\<close>

theorem allocate_input_check_first_witness:
  "error_checks spec_externals (asset_prices no_arguments) (asset_returns no_arguments)
       (covariance_matrix no_arguments) = Some InvalidInputError
   \<and> allocate spec_externals init no_arguments = (Some InvalidInputError, init)
   \<and> allocate spec_externals init (no_arguments\<lparr>asset_names := [''A''], distance_matrix := Some [[0]]\<rparr>)
       = (Some InvalidInputError, init)"
  using allocate_input_check_first [where ext = spec_externals and args = no_arguments
      and e = InvalidInputError and self = init and names = "[''A'']" and d = "Some [[0]]"]
  by (simp add: spec_externals_def no_arguments_def error_checks_spec_def)


text \<open>
  Claim C7 as stated fails for every input check and every exception: the calls
  \<open>two_assets\<close> and \<open>two_assets\<close> with three asset names give the check the same
  arguments and have the same outcome, but only the second has a covariance matrix
  whose dimensions disagree with the number of asset names.
\<close>

theorem allocate_input_check_counterexample:
  "\<not> (\<exists>ext e. \<forall>self args.
        (fst (allocate ext self args) = Some e) = (no_source_supplied args \<or> dimensions_disagree args))"
proof
  assume "\<exists>ext e. \<forall>self args.
        (fst (allocate ext self args) = Some e) = (no_source_supplied args \<or> dimensions_disagree args)"
  then obtain ext e where claim: "\<And>self args.
        (fst (allocate ext self args) = Some e) = (no_source_supplied args \<or> dimensions_disagree args)"
    by blast
  have same: "allocate ext init (two_assets\<lparr>asset_names := [''A'', ''B'', ''C''], distance_matrix := None\<rparr>)
      = allocate ext init two_assets"
    by (rule allocate_ignores_names_and_distance)
  have "\<not> (no_source_supplied two_assets \<or> dimensions_disagree two_assets)"
    by (simp add: no_source_supplied_def dimensions_disagree_def square_of_def
        one_row_per_asset_def two_assets_def nrows_def ncols_def)
  with claim [of init two_assets] have "fst (allocate ext init two_assets) \<noteq> Some e" by simp
  moreover have "dimensions_disagree (two_assets\<lparr>asset_names := [''A'', ''B'', ''C''], distance_matrix := None\<rparr>)"
    by (simp add: dimensions_disagree_def square_of_def one_row_per_asset_def two_assets_def
        nrows_def ncols_def)
  with claim [of init "two_assets\<lparr>asset_names := [''A'', ''B'', ''C''], distance_matrix := None\<rparr>"] same
  have "fst (allocate ext init two_assets) = Some e" by simp
  ultimately show False by simp
qed


end
